theory Spec2Isabelle
  imports Main
begin

section \<open>The State model of the editor (lib/models/state.js)\<close>

text \<open>
  \<^verbatim>\<open>state.js\<close> defines the immutable records \<^verbatim>\<open>History\<close> and \<^verbatim>\<open>State\<close> and the
  editing methods of \<^verbatim>\<open>State\<close>. Every editing method delegates the change of the tree
  to a method of \<^verbatim>\<open>Document\<close> and the new cursor position to methods of
  \<^verbatim>\<open>Selection\<close>; those two classes are imported from \<^verbatim>\<open>./document\<close> and
  \<^verbatim>\<open>./selection\<close>. The embedding therefore takes them as a parameter: a record of the
  operations that \<^verbatim>\<open>state.js\<close> calls on them.
\<close>

subsection \<open>Errors and values\<close>

text \<open>
  A JavaScript exception is the left summand of the result. \<open>TypeError\<close> is what the
  engine raises inside \<^verbatim>\<open>state.js\<close> itself: reading a property of \<^verbatim>\<open>null\<close> or
  \<^verbatim>\<open>undefined\<close>, or calling a property that is not a function. \<open>Thrown\<close> is whatever
  a collaborator throws.
\<close>

datatype error = TypeError | Thrown string

text \<open>Sequencing of two steps, the first of which may throw.\<close>

definition bindE :: "error + 'a \<Rightarrow> ('a \<Rightarrow> error + 'b) \<Rightarrow> error + 'b" where
  "bindE m f = (case m of Inl e \<Rightarrow> Inl e | Inr x \<Rightarrow> f x)"

text \<open>
  The arguments a caller hands to a range method of \<^verbatim>\<open>Document\<close>: a range (a
  selection), a string, a number.
\<close>

datatype 'sel jsarg = ARange 'sel | AText string | ANum int

subsection \<open>History and State\<close>

text \<open>
  \<^verbatim>\<open>const History = new Record({ undos: new Stack(), redos: new Stack() })\<close>
\<close>

record 'e History =
  undos :: "'e list"
  redos :: "'e list"

definition new_History :: "'e History" where
  "new_History = \<lparr>undos = [], redos = []\<rparr>"

text \<open>
  \<^verbatim>\<open>class State extends Record(DEFAULT_PROPERTIES)\<close>: the four fields of
  \<^verbatim>\<open>DEFAULT_PROPERTIES\<close>.
\<close>

record ('doc, 'sel, 'e) State =
  document :: 'doc
  selection :: 'sel
  history :: "'e History"
  isNative :: bool

subsection \<open>The collaborators: Document, Node and Selection\<close>

text \<open>
  Everything \<^verbatim>\<open>state.js\<close> uses of the two imported classes. A value that may be
  \<^verbatim>\<open>null\<close> or \<^verbatim>\<open>undefined\<close> is an option; a call that may throw returns a sum.

  \<^item> \<open>new_Document\<close>, \<open>new_Selection\<close>: \<^verbatim>\<open>new Document()\<close> and \<^verbatim>\<open>new Selection()\<close>,
    the constructors without arguments.
  \<^item> \<open>doc_method\<close>: the range methods of a document, looked up by name as
    \<^verbatim>\<open>document[method]\<close> does; \<open>None\<close> is a name the document does not have. A
    method takes the argument list and the receiver.
  \<^item> \<open>getNode\<close>, \<open>getParentNode\<close>, \<open>getPreviousNode\<close>, \<open>getNextNode\<close>: the navigation
    queries, with the document as first argument.
  \<^item> \<open>nodes\<close>: the \<^verbatim>\<open>nodes\<close> property of a node, the list of its children; \<open>None\<close>
    when the node has no such property.
  \<^item> \<open>startKey\<close>, \<open>isCollapsed\<close>: properties of a selection.
  \<^item> \<open>isAtStartOf\<close>, \<open>moveToStartOf\<close>, \<open>moveToEndOf\<close> take a node;
    \<open>isAtEndOf\<close> is only ever called with the document itself.
\<close>

record ('doc, 'sel, 'node, 'key) collaborators =
  new_Document :: 'doc
  new_Selection :: 'sel
  doc_method :: "string \<Rightarrow> ('sel jsarg list \<Rightarrow> 'doc \<Rightarrow> error + 'doc) option"
  getNode :: "'doc \<Rightarrow> 'key \<Rightarrow> error + 'node option"
  getParentNode :: "'doc \<Rightarrow> 'node option \<Rightarrow> error + 'node option"
  getPreviousNode :: "'doc \<Rightarrow> 'node option \<Rightarrow> error + 'node option"
  getNextNode :: "'doc \<Rightarrow> 'node option \<Rightarrow> error + 'node option"
  nodes :: "'node \<Rightarrow> 'node list option"
  startKey :: "'sel \<Rightarrow> 'key"
  isCollapsed :: "'sel \<Rightarrow> bool"
  isAtStartOf :: "'sel \<Rightarrow> 'node option \<Rightarrow> error + bool"
  isAtEndOf :: "'sel \<Rightarrow> 'doc \<Rightarrow> error + bool"
  moveToStart :: "'sel \<Rightarrow> error + 'sel"
  moveBackward :: "'sel \<Rightarrow> int \<Rightarrow> error + 'sel"
  moveForward :: "'sel \<Rightarrow> int \<Rightarrow> error + 'sel"
  moveToStartOf :: "'sel \<Rightarrow> 'node option \<Rightarrow> error + 'sel"
  moveToEndOf :: "'sel \<Rightarrow> 'node option \<Rightarrow> error + 'sel"

text \<open>
  Modelled from the spec: \<^verbatim>\<open>selection.isExpanded\<close>, a getter of the Selection class,
  which is not among the sources. The spec gives collapsed and expanded as the two
  derived flags of a selection, "collapsed (endpoints equal) vs expanded": a selection
  is expanded exactly when it is not collapsed.
\<close>

definition isExpanded :: "('doc, 'sel, 'node, 'key) collaborators \<Rightarrow> 'sel \<Rightarrow> bool" where
  "isExpanded C sel = (\<not> isCollapsed C sel)"

text \<open>
  \<^verbatim>\<open>document[method](...args)\<close>: calling something that is not a function is a
  \<^verbatim>\<open>TypeError\<close>.
\<close>

definition invoke ::
  "('doc, 'sel, 'node, 'key) collaborators \<Rightarrow> string \<Rightarrow> 'sel jsarg list \<Rightarrow> 'doc \<Rightarrow> error + 'doc"
where
  "invoke C method args doc =
     (case doc_method C method of None \<Rightarrow> Inl TypeError | Some f \<Rightarrow> f args doc)"

text \<open>
  \<^verbatim>\<open>x.nodes.first()\<close> for a value \<open>x\<close> that may be \<^verbatim>\<open>null\<close>: reading \<^verbatim>\<open>nodes\<close> of
  \<^verbatim>\<open>null\<close> throws, and so does calling \<^verbatim>\<open>first\<close> on a missing \<^verbatim>\<open>nodes\<close>. The first
  element of an empty list is \<^verbatim>\<open>undefined\<close>.
\<close>

definition nodes_first ::
  "('doc, 'sel, 'node, 'key) collaborators \<Rightarrow> 'node option \<Rightarrow> error + 'node option"
where
  "nodes_first C x =
     (case x of
        None \<Rightarrow> Inl TypeError
      | Some nd \<Rightarrow>
          (case nodes C nd of
             None \<Rightarrow> Inl TypeError
           | Some [] \<Rightarrow> Inr None
           | Some (c # cs) \<Rightarrow> Inr (Some c)))"

subsection \<open>The editing methods of State\<close>

text \<open>
  \<^verbatim>\<open>delete()\<close>: returns the receiver when the selection is collapsed; otherwise
  \<^verbatim>\<open>document.deleteAtRange(selection)\<close>, then \<^verbatim>\<open>selection.moveToStart()\<close>, then
  \<^verbatim>\<open>state.merge({ document, selection })\<close>.
\<close>

definition delete ::
  "('doc, 'sel, 'node, 'key) collaborators \<Rightarrow> ('doc, 'sel, 'e) State \<Rightarrow> error + ('doc, 'sel, 'e) State"
where
  "delete C state =
     (if isCollapsed C (selection state) then Inr state
      else
        bindE (invoke C ''deleteAtRange'' [ARange (selection state)] (document state)) (\<lambda>doc.
        bindE (moveToStart C (selection state)) (\<lambda>sel.
        Inr (state\<lparr>document := doc, selection := sel\<rparr>))))"

text \<open>
  \<^verbatim>\<open>deleteBackward(n = 1)\<close>. The start node is looked up first. The selection
  \<open>after\<close> the edit is then chosen by the chain of \<^verbatim>\<open>if\<close>/\<^verbatim>\<open>else if\<close>, whose last
  case (no branch taken) leaves \<open>after\<close> at its initial value, the selection. Only then
  \<^verbatim>\<open>document.deleteBackwardAtRange(selection)\<close> is called, with the selection as its
  single argument. An omitted \<open>n\<close> is \<open>None\<close> and defaults to 1.
\<close>

definition deleteBackward ::
  "('doc, 'sel, 'node, 'key) collaborators \<Rightarrow> int option \<Rightarrow> ('doc, 'sel, 'e) State
     \<Rightarrow> error + ('doc, 'sel, 'e) State"
where
  "deleteBackward C n state =
     (let doc = document state;
          sel = selection state;
          count = (case n of None \<Rightarrow> 1 | Some k \<Rightarrow> k)
      in
        bindE (getNode C doc (startKey C sel)) (\<lambda>startNode.
        bindE
          (if isExpanded C sel then moveToStart C sel
           else
             bindE (isAtStartOf C sel startNode) (\<lambda>atStart.
             if atStart then
               bindE (getParentNode C doc startNode) (\<lambda>parent.
               bindE (getPreviousNode C doc parent) (\<lambda>prev.
               bindE (nodes_first C prev) (\<lambda>previous.
               moveToEndOf C sel previous)))
             else
               bindE (isAtEndOf C sel doc) (\<lambda>atEnd.
               if \<not> atEnd then moveBackward C sel count else Inr sel)))
          (\<lambda>after.
        bindE (invoke C ''deleteBackwardAtRange'' [ARange sel] doc) (\<lambda>doc'.
        Inr (state\<lparr>document := doc', selection := after\<rparr>)))))"

text \<open>
  \<^verbatim>\<open>deleteForward(n = 1)\<close>: \<open>after\<close> is \<^verbatim>\<open>selection.moveToStart()\<close> for an expanded
  selection and the selection otherwise; then
  \<^verbatim>\<open>document.deleteForwardAtRange(selection)\<close>, called with the selection alone. The
  body never reads \<open>n\<close>.
\<close>

definition deleteForward ::
  "('doc, 'sel, 'node, 'key) collaborators \<Rightarrow> int option \<Rightarrow> ('doc, 'sel, 'e) State
     \<Rightarrow> error + ('doc, 'sel, 'e) State"
where
  "deleteForward C n state =
     (let doc = document state;
          sel = selection state
      in
        bindE (if isExpanded C sel then moveToStart C sel else Inr sel) (\<lambda>after.
        bindE (invoke C ''deleteForwardAtRange'' [ARange sel] doc) (\<lambda>doc'.
        Inr (state\<lparr>document := doc', selection := after\<rparr>))))"

text \<open>
  \<^verbatim>\<open>insertText(text)\<close>: \<^verbatim>\<open>document.insertTextAtRange(selection, text)\<close>, then
  \<^verbatim>\<open>selection.moveForward(text.length)\<close>.
\<close>

definition insertText ::
  "('doc, 'sel, 'node, 'key) collaborators \<Rightarrow> string \<Rightarrow> ('doc, 'sel, 'e) State
     \<Rightarrow> error + ('doc, 'sel, 'e) State"
where
  "insertText C text state =
     (let doc = document state;
          sel = selection state
      in
        bindE (invoke C ''insertTextAtRange'' [ARange sel, AText text] doc) (\<lambda>doc'.
        bindE (moveForward C sel (int (length text))) (\<lambda>sel'.
        Inr (state\<lparr>document := doc', selection := sel'\<rparr>))))"

text \<open>
  \<^verbatim>\<open>split()\<close>: \<^verbatim>\<open>document.splitAtRange(selection)\<close> first; the navigation that follows
  runs on the new document, from the start key of the selection the method was called
  with.
\<close>

definition split ::
  "('doc, 'sel, 'node, 'key) collaborators \<Rightarrow> ('doc, 'sel, 'e) State
     \<Rightarrow> error + ('doc, 'sel, 'e) State"
where
  "split C state =
     (let sel = selection state in
        bindE (invoke C ''splitAtRange'' [ARange sel] (document state)) (\<lambda>doc'.
        bindE (getNode C doc' (startKey C sel)) (\<lambda>startNode.
        bindE (getParentNode C doc' startNode) (\<lambda>parent.
        bindE (getNextNode C doc' parent) (\<lambda>next.
        bindE (nodes_first C next) (\<lambda>text.
        bindE (moveToStartOf C sel text) (\<lambda>sel'.
        Inr (state\<lparr>document := doc', selection := sel'\<rparr>))))))))"

text \<open>
  \<^verbatim>\<open>transform()\<close> wraps the state in a \<^verbatim>\<open>Transform\<close>, a class of the module
  \<^verbatim>\<open>./transform\<close>; it returns no state and has no counterpart here.
\<close>

subsection \<open>The methods mixed into the prototype\<close>

definition DOCUMENT_LIKE_METHODS :: "string list" where
  "DOCUMENT_LIKE_METHODS =
     [''deleteAtRange'', ''deleteBackwardAtRange'', ''deleteForwardAtRange'',
      ''insertAtRange'', ''splitAtRange'']"

text \<open>
  The function that the \<^verbatim>\<open>forEach\<close> installs for one \<open>method\<close>:
  \<^verbatim>\<open>document = document[method](...args); return this.merge({ document })\<close>.
\<close>

definition mixin ::
  "('doc, 'sel, 'node, 'key) collaborators \<Rightarrow> string \<Rightarrow> 'sel jsarg list \<Rightarrow> ('doc, 'sel, 'e) State
     \<Rightarrow> error + ('doc, 'sel, 'e) State"
where
  "mixin C method args state =
     bindE (invoke C method args (document state)) (\<lambda>doc'.
     Inr (state\<lparr>document := doc'\<rparr>))"

text \<open>
  \<^verbatim>\<open>State.prototype[method]\<close> after the \<^verbatim>\<open>forEach\<close>: defined for the five names of
  the list.
\<close>

definition State_prototype ::
  "('doc, 'sel, 'node, 'key) collaborators \<Rightarrow> string
     \<Rightarrow> ('sel jsarg list \<Rightarrow> ('doc, 'sel, 'e) State \<Rightarrow> error + ('doc, 'sel, 'e) State) option"
where
  "State_prototype C method =
     (if method \<in> set DOCUMENT_LIKE_METHODS then Some (mixin C method) else None)"

text \<open>
  A call of one of the editing methods of a state: the five methods of the class body,
  with their parameters, and a method of the prototype called by name. Calling a name
  the prototype does not have is a \<^verbatim>\<open>TypeError\<close>.
\<close>

datatype 'sel edit =
    Delete
  | DeleteBackward "int option"
  | DeleteForward "int option"
  | InsertText string
  | Split
  | RangeMethod string "'sel jsarg list"

fun perform ::
  "('doc, 'sel, 'node, 'key) collaborators \<Rightarrow> 'sel edit \<Rightarrow> ('doc, 'sel, 'e) State
     \<Rightarrow> error + ('doc, 'sel, 'e) State"
where
  "perform C Delete state = delete C state"
| "perform C (DeleteBackward n) state = deleteBackward C n state"
| "perform C (DeleteForward n) state = deleteForward C n state"
| "perform C (InsertText text) state = insertText C text state"
| "perform C Split state = split C state"
| "perform C (RangeMethod method args) state =
     (case State_prototype C method of
        None \<Rightarrow> Inl TypeError
      | Some f \<Rightarrow> f args state)"

subsection \<open>The factory\<close>

text \<open>
  \<^verbatim>\<open>DEFAULT_PROPERTIES\<close>: a document and a selection constructed without arguments, a
  new history, and \<^verbatim>\<open>isNative: true\<close>.
\<close>

definition DEFAULT_PROPERTIES ::
  "('doc, 'sel, 'node, 'key) collaborators \<Rightarrow> ('doc, 'sel, 'e) State"
where
  "DEFAULT_PROPERTIES C =
     \<lparr>document = new_Document C, selection = new_Selection C,
      history = new_History, isNative = True\<rparr>"

text \<open>
  The \<open>properties\<close> object handed to the factory: each of the four keys is present
  (\<open>Some\<close>) or absent.
\<close>

record ('doc, 'sel, 'e) properties =
  p_document :: "'doc option"
  p_selection :: "'sel option"
  p_history :: "'e History option"
  p_isNative :: "bool option"

definition no_properties :: "('doc, 'sel, 'e) properties" where
  "no_properties = \<lparr>p_document = None, p_selection = None, p_history = None, p_isNative = None\<rparr>"

text \<open>
  \<^verbatim>\<open>new State(properties)\<close>: a record takes the value of a key that the object has and
  the default of a key that it lacks.
\<close>

definition new_State ::
  "('doc, 'sel, 'node, 'key) collaborators \<Rightarrow> ('doc, 'sel, 'e) properties \<Rightarrow> ('doc, 'sel, 'e) State"
where
  "new_State C props =
     \<lparr>document = (case p_document props of None \<Rightarrow> document (DEFAULT_PROPERTIES C :: ('doc, 'sel, 'e) State) | Some d \<Rightarrow> d),
      selection = (case p_selection props of None \<Rightarrow> selection (DEFAULT_PROPERTIES C :: ('doc, 'sel, 'e) State) | Some s \<Rightarrow> s),
      history = (case p_history props of None \<Rightarrow> history (DEFAULT_PROPERTIES C :: ('doc, 'sel, 'e) State) | Some h \<Rightarrow> h),
      isNative = (case p_isNative props of None \<Rightarrow> isNative (DEFAULT_PROPERTIES C :: ('doc, 'sel, 'e) State) | Some b \<Rightarrow> b)\<rparr>"

text \<open>
  \<^verbatim>\<open>static create(properties = {})\<close>: an omitted argument (\<open>None\<close>) is the empty
  object.
\<close>

definition create ::
  "('doc, 'sel, 'node, 'key) collaborators \<Rightarrow> ('doc, 'sel, 'e) properties option \<Rightarrow> ('doc, 'sel, 'e) State"
where
  "create C properties =
     new_State C (case properties of None \<Rightarrow> no_properties | Some p \<Rightarrow> p)"

section \<open>A concrete Document and Selection\<close>

text \<open>
  Modelled from the spec: the classes \<^verbatim>\<open>Document\<close> and \<^verbatim>\<open>Selection\<close>, whose
  modules \<^verbatim>\<open>./document\<close> and \<^verbatim>\<open>./selection\<close> are not among the sources. The
  definitions of this section follow the contracts the spec gives for them (the
  operations of the Document and of the Selection that State consumes), on documents
  of the shape of the example application's initial value: the document is a list of
  blocks and every block holds one text node. They instantiate the parameter of the
  State methods where a theorem is evaluated at a concrete state; no theorem about
  all collaborators depends on them.

  A block is its key, the key of its text node, and the characters of that text node.
\<close>

type_synonym fblock = "nat \<times> nat \<times> string"

type_synonym fdoc = "fblock list"

datatype fnode = DocumentNode fdoc | BlockNode nat nat string | TextNode nat string

text \<open>
  A selection: the start endpoint and the end endpoint, each the key of a text node
  and an offset into its characters.
\<close>

record fsel =
  s_startKey :: nat
  s_startOffset :: nat
  s_endKey :: nat
  s_endOffset :: nat

definition caret :: "nat \<Rightarrow> nat \<Rightarrow> fsel" where
  "caret k off = \<lparr>s_startKey = k, s_startOffset = off, s_endKey = k, s_endOffset = off\<rparr>"

subsection \<open>Navigation\<close>

text \<open>
  Modelled from the spec: the navigation queries of the Document (\<^verbatim>\<open>getNode\<close>,
  \<^verbatim>\<open>getParentNode\<close>, \<^verbatim>\<open>getPreviousNode\<close>, \<^verbatim>\<open>getNextNode\<close>), which are "relative
  to sibling order under the same parent, or null/absent if none exists".
\<close>

fun block_of_text :: "fdoc \<Rightarrow> nat \<Rightarrow> fblock option" where
  "block_of_text [] k = None"
| "block_of_text ((b, t, s) # bs) k = (if t = k then Some (b, t, s) else block_of_text bs k)"

fun block_of_key :: "fdoc \<Rightarrow> nat \<Rightarrow> fblock option" where
  "block_of_key [] k = None"
| "block_of_key ((b, t, s) # bs) k = (if b = k then Some (b, t, s) else block_of_key bs k)"

fun block_before :: "fdoc \<Rightarrow> nat \<Rightarrow> fblock option" where
  "block_before (x # (b, t, s) # bs) k = (if b = k then Some x else block_before ((b, t, s) # bs) k)"
| "block_before bs k = None"

fun block_after :: "fdoc \<Rightarrow> nat \<Rightarrow> fblock option" where
  "block_after ((b, t, s) # y # bs) k = (if b = k then Some y else block_after (y # bs) k)"
| "block_after bs k = None"

definition as_block :: "fblock \<Rightarrow> fnode" where
  "as_block x = (case x of (b, t, s) \<Rightarrow> BlockNode b t s)"

text \<open>\<^verbatim>\<open>getNode(key)\<close>: the block or the text node with that key, if there is one.\<close>

definition fx_getNode :: "fdoc \<Rightarrow> nat \<Rightarrow> error + fnode option" where
  "fx_getNode doc k =
     (case block_of_key doc k of
        Some x \<Rightarrow> Inr (Some (as_block x))
      | None \<Rightarrow>
          (case block_of_text doc k of
             Some (b, t, s) \<Rightarrow> Inr (Some (TextNode t s))
           | None \<Rightarrow> Inr None))"

text \<open>
  The three queries read the key of their argument, which throws when the argument is
  \<^verbatim>\<open>undefined\<close>. The parent of a text node is its block, the parent of a block is the
  document, and the document has neither parent nor siblings. A text node is the only
  child of its block and has no siblings.
\<close>

definition fx_getParentNode :: "fdoc \<Rightarrow> fnode option \<Rightarrow> error + fnode option" where
  "fx_getParentNode doc x =
     (case x of
        None \<Rightarrow> Inl TypeError
      | Some (TextNode t s) \<Rightarrow> Inr (map_option as_block (block_of_text doc t))
      | Some (BlockNode b t s) \<Rightarrow>
          Inr (if block_of_key doc b = None then None else Some (DocumentNode doc))
      | Some (DocumentNode d) \<Rightarrow> Inr None)"

definition fx_getPreviousNode :: "fdoc \<Rightarrow> fnode option \<Rightarrow> error + fnode option" where
  "fx_getPreviousNode doc x =
     (case x of
        None \<Rightarrow> Inl TypeError
      | Some (BlockNode b t s) \<Rightarrow> Inr (map_option as_block (block_before doc b))
      | Some other \<Rightarrow> Inr None)"

definition fx_getNextNode :: "fdoc \<Rightarrow> fnode option \<Rightarrow> error + fnode option" where
  "fx_getNextNode doc x =
     (case x of
        None \<Rightarrow> Inl TypeError
      | Some (BlockNode b t s) \<Rightarrow> Inr (map_option as_block (block_after doc b))
      | Some other \<Rightarrow> Inr None)"

definition fx_nodes :: "fnode \<Rightarrow> fnode list option" where
  "fx_nodes nd =
     (case nd of
        DocumentNode d \<Rightarrow> Some (map as_block d)
      | BlockNode b t s \<Rightarrow> Some [TextNode t s]
      | TextNode t s \<Rightarrow> None)"

subsection \<open>Selection\<close>

text \<open>
  Modelled from the spec: the properties and movements of the Selection. A selection
  is collapsed when its endpoints are equal.
\<close>

definition fx_isCollapsed :: "fsel \<Rightarrow> bool" where
  "fx_isCollapsed sel =
     (s_startKey sel = s_endKey sel \<and> s_startOffset sel = s_endOffset sel)"

text \<open>The first and the last position of the text below a node.\<close>

definition first_position :: "fnode \<Rightarrow> (nat \<times> nat) option" where
  "first_position nd =
     (case nd of
        TextNode t s \<Rightarrow> Some (t, 0)
      | BlockNode b t s \<Rightarrow> Some (t, 0)
      | DocumentNode d \<Rightarrow> (case d of [] \<Rightarrow> None | (b, t, s) # bs \<Rightarrow> Some (t, 0)))"

definition last_position :: "fnode \<Rightarrow> (nat \<times> nat) option" where
  "last_position nd =
     (case nd of
        TextNode t s \<Rightarrow> Some (t, length s)
      | BlockNode b t s \<Rightarrow> Some (t, length s)
      | DocumentNode d \<Rightarrow>
          (case rev d of [] \<Rightarrow> None | (b, t, s) # bs \<Rightarrow> Some (t, length s)))"

definition fx_isAtStartOf :: "fsel \<Rightarrow> fnode option \<Rightarrow> error + bool" where
  "fx_isAtStartOf sel x =
     (case x of
        None \<Rightarrow> Inl TypeError
      | Some nd \<Rightarrow> Inr (first_position nd = Some (s_startKey sel, s_startOffset sel)))"

definition fx_isAtEndOf :: "fsel \<Rightarrow> fdoc \<Rightarrow> error + bool" where
  "fx_isAtEndOf sel doc =
     Inr (last_position (DocumentNode doc) = Some (s_endKey sel, s_endOffset sel))"

definition fx_moveToStart :: "fsel \<Rightarrow> error + fsel" where
  "fx_moveToStart sel = Inr (caret (s_startKey sel) (s_startOffset sel))"

text \<open>
  Moving by \<open>n\<close> characters shifts both offsets and clamps at offset 0. A selection
  holds no document, so there is no length to clamp against at the other end.
\<close>

definition fx_moveBackward :: "fsel \<Rightarrow> int \<Rightarrow> error + fsel" where
  "fx_moveBackward sel n =
     Inr (sel\<lparr>s_startOffset := nat (int (s_startOffset sel) - n),
              s_endOffset := nat (int (s_endOffset sel) - n)\<rparr>)"

definition fx_moveForward :: "fsel \<Rightarrow> int \<Rightarrow> error + fsel" where
  "fx_moveForward sel n =
     Inr (sel\<lparr>s_startOffset := nat (int (s_startOffset sel) + n),
              s_endOffset := nat (int (s_endOffset sel) + n)\<rparr>)"

definition fx_moveToStartOf :: "fsel \<Rightarrow> fnode option \<Rightarrow> error + fsel" where
  "fx_moveToStartOf sel x =
     (case x of
        None \<Rightarrow> Inl TypeError
      | Some nd \<Rightarrow>
          (case first_position nd of
             None \<Rightarrow> Inl (Thrown ''no text'')
           | Some (k, off) \<Rightarrow> Inr (caret k off)))"

definition fx_moveToEndOf :: "fsel \<Rightarrow> fnode option \<Rightarrow> error + fsel" where
  "fx_moveToEndOf sel x =
     (case x of
        None \<Rightarrow> Inl TypeError
      | Some nd \<Rightarrow>
          (case last_position nd of
             None \<Rightarrow> Inl (Thrown ''no text'')
           | Some (k, off) \<Rightarrow> Inr (caret k off)))"

subsection \<open>Range methods of the document\<close>

text \<open>
  Modelled from the spec: the range operations of the Document. Each is pure: it
  returns a new document.
\<close>

text \<open>The characters of the text node with key \<open>k\<close>.\<close>

definition text_of :: "fdoc \<Rightarrow> nat \<Rightarrow> string option" where
  "text_of doc k = map_option (\<lambda>(b, t, s). s) (block_of_text doc k)"

definition set_text :: "fdoc \<Rightarrow> nat \<Rightarrow> string \<Rightarrow> fdoc" where
  "set_text doc k new = map (\<lambda>(b, t, s). if t = k then (b, t, new) else (b, t, s)) doc"

text \<open>
  The blocks from the one whose text has key \<open>sk\<close> to the one whose text has key \<open>ek\<close>
  become one block, the first of them, with the characters \<open>new\<close>.
\<close>

fun join_blocks :: "fdoc \<Rightarrow> nat \<Rightarrow> nat \<Rightarrow> string \<Rightarrow> fdoc" where
  "join_blocks [] sk ek new = []"
| "join_blocks ((b, t, s) # bs) sk ek new =
     (if t = sk then (b, t, new) # tl (dropWhile (\<lambda>(b', t', s'). t' \<noteq> ek) ((b, t, s) # bs))
      else (b, t, s) # join_blocks bs sk ek new)"

text \<open>
  \<^verbatim>\<open>deleteAtRange(range)\<close>: removes the content the range spans; when the range spans
  several nodes, what survives of them is merged into one node at the start of the
  range. A key that the document does not have is an error, and so is an offset
  outside the characters of its text node or an end that lies before the start.
\<close>

definition remove_range :: "fdoc \<Rightarrow> fsel \<Rightarrow> error + fdoc" where
  "remove_range doc r =
     (case text_of doc (s_startKey r) of
        None \<Rightarrow> Inl (Thrown ''invalid reference'')
      | Some s1 \<Rightarrow>
          (case text_of (dropWhile (\<lambda>(b, t, s). t \<noteq> s_startKey r) doc) (s_endKey r) of
             None \<Rightarrow> Inl (Thrown ''invalid reference'')
           | Some s2 \<Rightarrow>
               (if length s1 < s_startOffset r \<or> length s2 < s_endOffset r
                   \<or> (s_startKey r = s_endKey r \<and> s_endOffset r < s_startOffset r)
                then Inl (Thrown ''invalid offset'')
                else
                  Inr (join_blocks doc (s_startKey r) (s_endKey r)
                         (take (s_startOffset r) s1 @ drop (s_endOffset r) s2)))))"

definition fx_deleteAtRange :: "fsel jsarg list \<Rightarrow> fdoc \<Rightarrow> error + fdoc" where
  "fx_deleteAtRange args doc =
     (case args of
        ARange r # rest \<Rightarrow> remove_range doc r
      | other \<Rightarrow> Inl TypeError)"

text \<open>The optional count \<open>n\<close> that follows the range; it defaults to 1.\<close>

definition count_arg :: "fsel jsarg list \<Rightarrow> nat" where
  "count_arg rest = (case rest of ANum n # others \<Rightarrow> nat n | other \<Rightarrow> 1)"

text \<open>
  \<^verbatim>\<open>deleteBackwardAtRange(range, n)\<close>: an expanded range loses its content. At a
  collapsed range the \<open>n\<close> characters before it are removed; at the start of a block
  the block is merged into the block before it, if there is one.
\<close>

definition fx_deleteBackwardAtRange :: "fsel jsarg list \<Rightarrow> fdoc \<Rightarrow> error + fdoc" where
  "fx_deleteBackwardAtRange args doc =
     (case args of
        ARange r # rest \<Rightarrow>
          (if \<not> fx_isCollapsed r then remove_range doc r
           else
             (case block_of_text doc (s_startKey r) of
                None \<Rightarrow> Inl (Thrown ''invalid reference'')
              | Some (b, t, s) \<Rightarrow>
                  (if 0 < s_startOffset r then
                     remove_range doc (r\<lparr>s_startOffset := s_startOffset r - count_arg rest\<rparr>)
                   else
                     (case block_before doc b of
                        None \<Rightarrow> Inr doc
                      | Some (pb, pt, ps) \<Rightarrow>
                          remove_range doc (r\<lparr>s_startKey := pt, s_startOffset := length ps\<rparr>)))))
      | other \<Rightarrow> Inl TypeError)"

text \<open>
  \<^verbatim>\<open>deleteForwardAtRange(range, n)\<close>, the mirror image: the \<open>n\<close> characters after a
  collapsed range, or the merge of the next block at the end of a block.
\<close>

definition fx_deleteForwardAtRange :: "fsel jsarg list \<Rightarrow> fdoc \<Rightarrow> error + fdoc" where
  "fx_deleteForwardAtRange args doc =
     (case args of
        ARange r # rest \<Rightarrow>
          (if \<not> fx_isCollapsed r then remove_range doc r
           else
             (case block_of_text doc (s_startKey r) of
                None \<Rightarrow> Inl (Thrown ''invalid reference'')
              | Some (b, t, s) \<Rightarrow>
                  (if s_endOffset r < length s then
                     remove_range doc
                       (r\<lparr>s_endOffset := min (length s) (s_endOffset r + count_arg rest)\<rparr>)
                   else
                     (case block_after doc b of
                        None \<Rightarrow> Inr doc
                      | Some (nb, nt, ns) \<Rightarrow>
                          remove_range doc (r\<lparr>s_endKey := nt, s_endOffset := 0\<rparr>)))))
      | other \<Rightarrow> Inl TypeError)"

text \<open>
  The insertion of a text at a range: the content of an expanded range is removed
  first, then the text is spliced in at the start of the range.
\<close>

definition fx_insertAtRange :: "fsel jsarg list \<Rightarrow> fdoc \<Rightarrow> error + fdoc" where
  "fx_insertAtRange args doc =
     (case args of
        ARange r # AText new # rest \<Rightarrow>
          bindE (remove_range doc r) (\<lambda>doc'.
          (case text_of doc' (s_startKey r) of
             None \<Rightarrow> Inl (Thrown ''invalid reference'')
           | Some s \<Rightarrow>
               Inr (set_text doc' (s_startKey r)
                      (take (s_startOffset r) s @ new @ drop (s_startOffset r) s))))
      | other \<Rightarrow> Inl TypeError)"

text \<open>A key that no block and no text node of the document has.\<close>

definition fresh_key :: "fdoc \<Rightarrow> nat" where
  "fresh_key doc = Suc (foldr (\<lambda>(b, t, s) m. max b (max t m)) doc 0)"

fun split_block :: "fdoc \<Rightarrow> nat \<Rightarrow> nat \<Rightarrow> nat \<Rightarrow> fdoc" where
  "split_block [] k off fresh = []"
| "split_block ((b, t, s) # bs) k off fresh =
     (if t = k then (b, t, take off s) # (fresh, Suc fresh, drop off s) # bs
      else (b, t, s) # split_block bs k off fresh)"

text \<open>
  \<^verbatim>\<open>splitAtRange(range)\<close>: the block that holds the position of the range becomes two
  sibling blocks, and the characters of its text node are divided between them at that
  position. The second block and its text node get new keys.
\<close>

definition fx_splitAtRange :: "fsel jsarg list \<Rightarrow> fdoc \<Rightarrow> error + fdoc" where
  "fx_splitAtRange args doc =
     (case args of
        ARange r # rest \<Rightarrow>
          (case text_of doc (s_startKey r) of
             None \<Rightarrow> Inl (Thrown ''invalid reference'')
           | Some s \<Rightarrow> Inr (split_block doc (s_startKey r) (s_startOffset r) (fresh_key doc)))
      | other \<Rightarrow> Inl TypeError)"

text \<open>
  The range methods by name. The spec calls the insertion \<^verbatim>\<open>insertAtRange\<close>, and so
  does \<^verbatim>\<open>DOCUMENT_LIKE_METHODS\<close>; \<^verbatim>\<open>State.insertText\<close> calls
  \<^verbatim>\<open>insertTextAtRange\<close>. The name under which the document offers the insertion is
  therefore the argument \<open>ins\<close>.
\<close>

definition fx_method :: "string \<Rightarrow> string \<Rightarrow> (fsel jsarg list \<Rightarrow> fdoc \<Rightarrow> error + fdoc) option" where
  "fx_method ins name =
     (if name = ''deleteAtRange'' then Some fx_deleteAtRange
      else if name = ''deleteBackwardAtRange'' then Some fx_deleteBackwardAtRange
      else if name = ''deleteForwardAtRange'' then Some fx_deleteForwardAtRange
      else if name = ''splitAtRange'' then Some fx_splitAtRange
      else if name = ins then Some fx_insertAtRange
      else None)"

definition Slate :: "string \<Rightarrow> (fdoc, fsel, fnode, nat) collaborators" where
  "Slate ins =
     \<lparr>new_Document = [],
      new_Selection = caret 0 0,
      doc_method = fx_method ins,
      getNode = fx_getNode,
      getParentNode = fx_getParentNode,
      getPreviousNode = fx_getPreviousNode,
      getNextNode = fx_getNextNode,
      nodes = fx_nodes,
      startKey = s_startKey,
      isCollapsed = fx_isCollapsed,
      isAtStartOf = fx_isAtStartOf,
      isAtEndOf = fx_isAtEndOf,
      moveToStart = fx_moveToStart,
      moveBackward = fx_moveBackward,
      moveForward = fx_moveForward,
      moveToStartOf = fx_moveToStartOf,
      moveToEndOf = fx_moveToEndOf\<rparr>"

text \<open>A state over a document, with a new history.\<close>

definition state_of :: "fdoc \<Rightarrow> fsel \<Rightarrow> (fdoc, fsel, unit) State" where
  "state_of doc sel = \<lparr>document = doc, selection = sel, history = new_History, isNative = True\<rparr>"

subsection \<open>Example documents\<close>

text \<open>Two blocks, "Foo" and "Bar"; the text nodes have the keys 2 and 4.\<close>

definition foo_bar :: fdoc where
  "foo_bar = [(1, 2, ''Foo''), (3, 4, ''Bar'')]"

text \<open>One paragraph with the text "Hello World".\<close>

definition hello_world :: fdoc where
  "hello_world = [(1, 2, ''Hello World'')]"

text \<open>A state with a history that is not empty and with \<open>isNative\<close> false.\<close>

definition used_state :: "fdoc \<Rightarrow> fsel \<Rightarrow> (fdoc, fsel, nat) State" where
  "used_state doc sel =
     \<lparr>document = doc, selection = sel,
      history = \<lparr>undos = [7, 8], redos = [9]\<rparr>, isNative = False\<rparr>"

section \<open>Properties\<close>

lemma bindE_Inr [simp]: "bindE (Inr x) f = f x"
  by (simp add: bindE_def)

lemma bindE_Inl [simp]: "bindE (Inl e) f = Inl e"
  by (simp add: bindE_def)

lemma bindE_eq_Inr: "bindE m f = Inr y \<longleftrightarrow> (\<exists>x. m = Inr x \<and> f x = Inr y)"
  by (cases m) simp_all

text \<open>The definitions that evaluate the concrete Document and Selection.\<close>

lemmas fx_defs =
  Slate_def state_of_def used_state_def caret_def new_History_def invoke_def nodes_first_def
  isExpanded_def foo_bar_def hello_world_def
  fx_method_def fx_getNode_def fx_getParentNode_def fx_getPreviousNode_def fx_getNextNode_def
  fx_nodes_def fx_isCollapsed_def fx_isAtStartOf_def fx_isAtEndOf_def fx_moveToStart_def
  fx_moveBackward_def fx_moveForward_def fx_moveToStartOf_def fx_moveToEndOf_def
  first_position_def last_position_def as_block_def text_of_def set_text_def remove_range_def
  fx_deleteAtRange_def fx_deleteBackwardAtRange_def fx_deleteForwardAtRange_def
  fx_insertAtRange_def fx_splitAtRange_def count_arg_def fresh_key_def

subsection \<open>delete\<close>

text \<open>
  C7. When the selection of a state is collapsed, \<open>delete\<close> returns the state it was
  given: document and selection are those of the original state. This holds for all
  collaborators, also for a document whose \<open>deleteAtRange\<close> throws or does not exist,
  so no method of the document is applied.
\<close>

theorem delete_collapsed_identity:
  "isCollapsed C (selection state) \<Longrightarrow> delete C state = Inr state"
  by (simp add: delete_def)

theorem delete_collapsed_identity_witness:
  "isCollapsed (Slate ''insertTextAtRange'') (selection (state_of foo_bar (caret 2 1)))
   \<and> delete (Slate ''insertTextAtRange'') (state_of foo_bar (caret 2 1))
       = Inr (state_of foo_bar (caret 2 1))"
proof -
  have c: "isCollapsed (Slate ''insertTextAtRange'') (selection (state_of foo_bar (caret 2 1)))"
    by (simp add: fx_defs)
  from c delete_collapsed_identity [OF c] show ?thesis by simp
qed

text \<open>
  C6. When the selection of a state is expanded, \<open>delete\<close> returns the state whose
  document is the result of \<open>deleteAtRange\<close> applied to the document with the selection
  as argument, and whose selection is the result of \<open>moveToStart\<close> on the original
  selection. In the example the range from offset 1 to offset 3 of "Foo" is removed and
  the selection is the caret at offset 1, where the range began.
\<close>

theorem delete_expanded:
  assumes "isExpanded C (selection state)"
      and "invoke C ''deleteAtRange'' [ARange (selection state)] (document state) = Inr doc'"
      and "moveToStart C (selection state) = Inr sel'"
  shows "delete C state = Inr (state\<lparr>document := doc', selection := sel'\<rparr>)"
  using assms by (simp add: delete_def isExpanded_def)

theorem delete_expanded_witness:
  "isExpanded (Slate ''insertTextAtRange'')
     (selection (state_of foo_bar
        \<lparr>s_startKey = 2, s_startOffset = 1, s_endKey = 2, s_endOffset = 3\<rparr>))
   \<and> delete (Slate ''insertTextAtRange'')
       (state_of foo_bar \<lparr>s_startKey = 2, s_startOffset = 1, s_endKey = 2, s_endOffset = 3\<rparr>)
       = Inr (state_of [(1, 2, ''F''), (3, 4, ''Bar'')] (caret 2 1))"
proof -
  let ?C = "Slate ''insertTextAtRange''"
  let ?st = "state_of foo_bar \<lparr>s_startKey = 2, s_startOffset = 1, s_endKey = 2, s_endOffset = 3\<rparr>"
  have e: "isExpanded ?C (selection ?st)"
    by (simp add: fx_defs)
  have d: "invoke ?C ''deleteAtRange'' [ARange (selection ?st)] (document ?st)
             = Inr [(1, 2, ''F''), (3, 4, ''Bar'')]"
    by (simp add: fx_defs)
  have m: "moveToStart ?C (selection ?st) = Inr (caret 2 1)"
    by (simp add: fx_defs)
  from e delete_expanded [OF e d m] show ?thesis
    by (simp add: state_of_def)
qed

subsection \<open>deleteBackward\<close>

text \<open>
  C1. \<open>deleteBackward\<close> looks up the start node, chooses the selection \<open>after\<close> the
  edit, and returns the state whose document is the result of \<open>deleteBackwardAtRange\<close>
  called with the original selection alone, and whose selection is \<open>after\<close>. The choice
  has four cases, in this order: an expanded selection gives \<open>moveToStart\<close>; a
  collapsed one at the start of its node gives the end of the first child of the
  previous sibling of the node's parent; one that is not at the end of the document
  gives \<open>moveBackward n\<close> (with 1 for an omitted \<open>n\<close>); otherwise \<open>after\<close> is the
  original selection.
\<close>

theorem deleteBackward_precedence:
  fixes state :: "('doc, 'sel, 'e) State"
  assumes "getNode C (document state) (startKey C (selection state)) = Inr startNode"
      and "invoke C ''deleteBackwardAtRange'' [ARange (selection state)] (document state) = Inr doc'"
  shows
    "(isExpanded C (selection state) \<and> moveToStart C (selection state) = Inr after
        \<longrightarrow> deleteBackward C n state = Inr (state\<lparr>document := doc', selection := after\<rparr>))
   \<and> (\<not> isExpanded C (selection state)
        \<and> isAtStartOf C (selection state) startNode = Inr True
        \<and> getParentNode C (document state) startNode = Inr parent
        \<and> getPreviousNode C (document state) parent = Inr (Some previous)
        \<and> nodes C previous = Some (child # siblings)
        \<and> moveToEndOf C (selection state) (Some child) = Inr after
        \<longrightarrow> deleteBackward C n state = Inr (state\<lparr>document := doc', selection := after\<rparr>))
   \<and> (\<not> isExpanded C (selection state)
        \<and> isAtStartOf C (selection state) startNode = Inr False
        \<and> isAtEndOf C (selection state) (document state) = Inr False
        \<and> moveBackward C (selection state) (case n of None \<Rightarrow> 1 | Some k \<Rightarrow> k) = Inr after
        \<longrightarrow> deleteBackward C n state = Inr (state\<lparr>document := doc', selection := after\<rparr>))
   \<and> (\<not> isExpanded C (selection state)
        \<and> isAtStartOf C (selection state) startNode = Inr False
        \<and> isAtEndOf C (selection state) (document state) = Inr True
        \<longrightarrow> deleteBackward C n state
              = Inr (state\<lparr>document := doc', selection := selection state\<rparr>))"
  using assms by (simp add: deleteBackward_def Let_def nodes_first_def)

theorem deleteBackward_precedence_witness:
  "deleteBackward (Slate ''insertTextAtRange'') None
     (state_of foo_bar \<lparr>s_startKey = 2, s_startOffset = 1, s_endKey = 4, s_endOffset = 1\<rparr>)
     = Inr (state_of [(1, 2, ''Far'')] (caret 2 1))
   \<and> deleteBackward (Slate ''insertTextAtRange'') (Some 1) (state_of foo_bar (caret 4 0))
     = Inr (state_of [(1, 2, ''FooBar'')] (caret 2 3))
   \<and> deleteBackward (Slate ''insertTextAtRange'') (Some 1) (state_of foo_bar (caret 2 2))
     = Inr (state_of [(1, 2, ''Fo''), (3, 4, ''Bar'')] (caret 2 1))
   \<and> deleteBackward (Slate ''insertTextAtRange'') (Some 1) (state_of foo_bar (caret 4 3))
     = Inr (state_of [(1, 2, ''Foo''), (3, 4, ''Ba'')] (caret 4 3))"
proof -
  let ?C = "Slate ''insertTextAtRange''"
  let ?r = "\<lparr>s_startKey = 2, s_startOffset = 1, s_endKey = 4, s_endOffset = 1\<rparr>"
  have expanded:
    "deleteBackward ?C None (state_of foo_bar ?r) = Inr (state_of [(1, 2, ''Far'')] (caret 2 1))"
  proof -
    let ?st = "state_of foo_bar ?r"
    have g: "getNode ?C (document ?st) (startKey ?C (selection ?st)) = Inr (Some (TextNode 2 ''Foo''))"
      by (simp add: fx_defs)
    have d: "invoke ?C ''deleteBackwardAtRange'' [ARange (selection ?st)] (document ?st)
               = Inr [(1, 2, ''Far'')]"
      by (simp add: fx_defs)
    have c: "isExpanded ?C (selection ?st) \<and> moveToStart ?C (selection ?st) = Inr (caret 2 1)"
      by (simp add: fx_defs)
    from deleteBackward_precedence [where after = "caret 2 1" and n = None, OF g d] c
    show ?thesis by (simp add: state_of_def)
  qed
  have boundary:
    "deleteBackward ?C (Some 1) (state_of foo_bar (caret 4 0))
       = Inr (state_of [(1, 2, ''FooBar'')] (caret 2 3))"
  proof -
    let ?st = "state_of foo_bar (caret 4 0)"
    have g: "getNode ?C (document ?st) (startKey ?C (selection ?st)) = Inr (Some (TextNode 4 ''Bar''))"
      by (simp add: fx_defs)
    have d: "invoke ?C ''deleteBackwardAtRange'' [ARange (selection ?st)] (document ?st)
               = Inr [(1, 2, ''FooBar'')]"
      by (simp add: fx_defs)
    have c: "\<not> isExpanded ?C (selection ?st)
        \<and> isAtStartOf ?C (selection ?st) (Some (TextNode 4 ''Bar'')) = Inr True
        \<and> getParentNode ?C (document ?st) (Some (TextNode 4 ''Bar'')) = Inr (Some (BlockNode 3 4 ''Bar''))
        \<and> getPreviousNode ?C (document ?st) (Some (BlockNode 3 4 ''Bar'')) = Inr (Some (BlockNode 1 2 ''Foo''))
        \<and> nodes ?C (BlockNode 1 2 ''Foo'') = Some (TextNode 2 ''Foo'' # [])
        \<and> moveToEndOf ?C (selection ?st) (Some (TextNode 2 ''Foo'')) = Inr (caret 2 3)"
      by (simp add: fx_defs)
    from deleteBackward_precedence
           [where after = "caret 2 3" and n = "Some 1" and parent = "Some (BlockNode 3 4 ''Bar'')"
              and previous = "BlockNode 1 2 ''Foo''" and child = "TextNode 2 ''Foo''"
              and siblings = "[]", OF g d] c
    show ?thesis by (simp add: state_of_def)
  qed
  have middle:
    "deleteBackward ?C (Some 1) (state_of foo_bar (caret 2 2))
       = Inr (state_of [(1, 2, ''Fo''), (3, 4, ''Bar'')] (caret 2 1))"
  proof -
    let ?st = "state_of foo_bar (caret 2 2)"
    have g: "getNode ?C (document ?st) (startKey ?C (selection ?st)) = Inr (Some (TextNode 2 ''Foo''))"
      by (simp add: fx_defs)
    have d: "invoke ?C ''deleteBackwardAtRange'' [ARange (selection ?st)] (document ?st)
               = Inr [(1, 2, ''Fo''), (3, 4, ''Bar'')]"
      by (simp add: fx_defs)
    have c: "\<not> isExpanded ?C (selection ?st)
        \<and> isAtStartOf ?C (selection ?st) (Some (TextNode 2 ''Foo'')) = Inr False
        \<and> isAtEndOf ?C (selection ?st) (document ?st) = Inr False
        \<and> moveBackward ?C (selection ?st) (case Some 1 of None \<Rightarrow> 1 | Some k \<Rightarrow> k) = Inr (caret 2 1)"
      by (simp add: fx_defs)
    from deleteBackward_precedence [where after = "caret 2 1" and n = "Some 1", OF g d] c
    show ?thesis by (simp add: state_of_def)
  qed
  have at_end:
    "deleteBackward ?C (Some 1) (state_of foo_bar (caret 4 3))
       = Inr (state_of [(1, 2, ''Foo''), (3, 4, ''Ba'')] (caret 4 3))"
  proof -
    let ?st = "state_of foo_bar (caret 4 3)"
    have g: "getNode ?C (document ?st) (startKey ?C (selection ?st)) = Inr (Some (TextNode 4 ''Bar''))"
      by (simp add: fx_defs)
    have d: "invoke ?C ''deleteBackwardAtRange'' [ARange (selection ?st)] (document ?st)
               = Inr [(1, 2, ''Foo''), (3, 4, ''Ba'')]"
      by (simp add: fx_defs)
    have c: "\<not> isExpanded ?C (selection ?st)
        \<and> isAtStartOf ?C (selection ?st) (Some (TextNode 4 ''Bar'')) = Inr False
        \<and> isAtEndOf ?C (selection ?st) (document ?st) = Inr True"
      by (simp add: fx_defs)
    from deleteBackward_precedence [where n = "Some 1", OF g d] c
    show ?thesis by (simp add: state_of_def)
  qed
  from expanded boundary middle at_end show ?thesis by simp
qed

text \<open>
  A collapsed selection at the start of a node whose parent has no previous sibling:
  \<^verbatim>\<open>document.getPreviousNode(parent)\<close> is \<^verbatim>\<open>null\<close>, and reading its \<^verbatim>\<open>nodes\<close> throws
  before the document is touched.
\<close>

lemma deleteBackward_no_previous_sibling:
  fixes state :: "('doc, 'sel, 'e) State"
  assumes "getNode C (document state) (startKey C (selection state)) = Inr startNode"
      and "isCollapsed C (selection state)"
      and "isAtStartOf C (selection state) startNode = Inr True"
      and "getParentNode C (document state) startNode = Inr parent"
      and "getPreviousNode C (document state) parent = Inr None"
  shows "deleteBackward C n state = Inl TypeError"
  using assms by (simp add: deleteBackward_def Let_def nodes_first_def isExpanded_def)

text \<open>
  C4. The claim: with the collapsed selection at the start of the first block,
  \<open>deleteBackward\<close> signals no error and returns the state unchanged. The code at such
  a state: the cursor is at offset 0 of "Foo", the first block of the document; its
  block has no previous sibling, and \<open>deleteBackward\<close> ends in a \<open>TypeError\<close>.
\<close>

theorem deleteBackward_first_block_TypeError:
  "getPreviousNode (Slate ''insertTextAtRange'') foo_bar (Some (BlockNode 1 2 ''Foo'')) = Inr None
   \<and> deleteBackward (Slate ''insertTextAtRange'') (Some 1) (state_of foo_bar (caret 2 0))
       = Inl TypeError
   \<and> deleteBackward (Slate ''insertTextAtRange'') (Some 1) (state_of foo_bar (caret 2 0))
       \<noteq> Inr (state_of foo_bar (caret 2 0))"
proof -
  let ?C = "Slate ''insertTextAtRange''"
  let ?st = "state_of foo_bar (caret 2 0)"
  have p: "getPreviousNode ?C foo_bar (Some (BlockNode 1 2 ''Foo'')) = Inr None"
    by (simp add: fx_defs)
  have g: "getNode ?C (document ?st) (startKey ?C (selection ?st)) = Inr (Some (TextNode 2 ''Foo''))"
    by (simp add: fx_defs)
  have c: "isCollapsed ?C (selection ?st)"
    by (simp add: fx_defs)
  have a: "isAtStartOf ?C (selection ?st) (Some (TextNode 2 ''Foo'')) = Inr True"
    by (simp add: fx_defs)
  have q: "getParentNode ?C (document ?st) (Some (TextNode 2 ''Foo'')) = Inr (Some (BlockNode 1 2 ''Foo''))"
    by (simp add: fx_defs)
  have p': "getPreviousNode ?C (document ?st) (Some (BlockNode 1 2 ''Foo'')) = Inr None"
    by (simp add: fx_defs)
  have "deleteBackward ?C (Some 1) ?st = Inl TypeError"
    by (rule deleteBackward_no_previous_sibling [OF g c a q p'])
  with p show ?thesis by simp
qed

subsection \<open>deleteForward\<close>

text \<open>
  The selection after \<open>deleteForward\<close>, and the call it makes: the document method
  receives the selection and nothing else.
\<close>

lemma deleteForward_result:
  assumes "invoke C ''deleteForwardAtRange'' [ARange (selection state)] (document state) = Inr doc'"
      and "moveToStart C (selection state) = Inr start"
  shows "deleteForward C n state =
           Inr (state\<lparr>document := doc',
                      selection := (if isExpanded C (selection state) then start
                                    else selection state)\<rparr>)"
  using assms by (simp add: deleteForward_def Let_def)

text \<open>The count never reaches the document: any two counts give the same result.\<close>

lemma deleteForward_count_unused: "deleteForward C n state = deleteForward C m state"
  by (simp add: deleteForward_def)

text \<open>
  C3. The claim: \<open>deleteForward n\<close> applies \<open>deleteForwardAtRange\<close> to the selection and
  the count \<open>n\<close>. The code with the cursor before "Foo" and \<open>n = 2\<close>: the document
  method called with the selection and the count 2 removes two characters, and
  \<open>deleteForward\<close> with the count 2 returns the document with one character removed,
  which is what the method gives for the selection alone. The selection is the original
  one, as the claim says.
\<close>

theorem deleteForward_drops_count:
  "invoke (Slate ''insertTextAtRange'') ''deleteForwardAtRange'' [ARange (caret 2 0), ANum 2] foo_bar
     = Inr [(1, 2, ''o''), (3, 4, ''Bar'')]
   \<and> invoke (Slate ''insertTextAtRange'') ''deleteForwardAtRange'' [ARange (caret 2 0)] foo_bar
     = Inr [(1, 2, ''oo''), (3, 4, ''Bar'')]
   \<and> deleteForward (Slate ''insertTextAtRange'') (Some 2) (state_of foo_bar (caret 2 0))
     = Inr (state_of [(1, 2, ''oo''), (3, 4, ''Bar'')] (caret 2 0))"
  by (simp add: deleteForward_def fx_defs)

subsection \<open>insertText\<close>

text \<open>
  C2, as stated: the document of the result of \<open>insertText\<close> is what the document's
  \<open>insertAtRange\<close> returns for the selection and the text. The code at the state of
  the spec's scenario ("Hello World", cursor at offset 5, text " there"): on a document
  that offers the insertion as \<open>insertAtRange\<close>, that method returns
  "Hello there World" and \<open>insertText\<close> ends in a \<open>TypeError\<close>; on a document that
  offers it as \<open>insertTextAtRange\<close>, \<open>insertText\<close> returns "Hello there World" with
  the cursor at offset 11 and there is no \<open>insertAtRange\<close> to apply.
\<close>

theorem insertText_insertAtRange_counterexample:
  "invoke (Slate ''insertAtRange'') ''insertAtRange'' [ARange (caret 2 5), AText '' there'']
       hello_world
     = Inr [(1, 2, ''Hello there World'')]
   \<and> insertText (Slate ''insertAtRange'') '' there'' (state_of hello_world (caret 2 5))
     = Inl TypeError
   \<and> invoke (Slate ''insertTextAtRange'') ''insertAtRange'' [ARange (caret 2 5), AText '' there'']
       hello_world
     = Inl TypeError
   \<and> insertText (Slate ''insertTextAtRange'') '' there'' (state_of hello_world (caret 2 5))
     = Inr (state_of [(1, 2, ''Hello there World'')] (caret 2 11))"
  by (simp add: insertText_def fx_defs)

text \<open>
  C2, amended. \<open>insertText text\<close> returns the state whose document is the result of
  the document method \<open>insertTextAtRange\<close> called with the selection and the text, and
  whose selection is the original selection moved forward by the length of the text.
\<close>

theorem insertText_delegates:
  assumes "invoke C ''insertTextAtRange'' [ARange (selection state), AText text] (document state)
             = Inr doc'"
      and "moveForward C (selection state) (int (length text)) = Inr sel'"
  shows "insertText C text state = Inr (state\<lparr>document := doc', selection := sel'\<rparr>)"
  using assms by (simp add: insertText_def Let_def)

theorem insertText_delegates_witness:
  "insertText (Slate ''insertTextAtRange'') '' there'' (state_of hello_world (caret 2 5))
     = Inr (state_of [(1, 2, ''Hello there World'')] (caret 2 11))"
proof -
  let ?C = "Slate ''insertTextAtRange''"
  let ?st = "state_of hello_world (caret 2 5)"
  have d: "invoke ?C ''insertTextAtRange'' [ARange (selection ?st), AText '' there''] (document ?st)
             = Inr [(1, 2, ''Hello there World'')]"
    by (simp add: fx_defs)
  have m: "moveForward ?C (selection ?st) (int (length '' there'')) = Inr (caret 2 11)"
    by (simp add: fx_defs)
  from insertText_delegates [OF d m] show ?thesis
    by (simp add: state_of_def)
qed

subsection \<open>split\<close>

text \<open>
  C5. \<open>split\<close> returns the state whose document is the result of \<open>splitAtRange\<close> called
  with the selection, and whose selection is found in that new document: the node at
  the start key of the original selection, its parent, the parent's next sibling, the
  first child of that sibling, and \<open>moveToStartOf\<close> that child. In the example "Foo"
  is split after "F"; the cursor is the caret at offset 0 of the new text node "oo".
\<close>

theorem split_selection:
  assumes "invoke C ''splitAtRange'' [ARange (selection state)] (document state) = Inr doc'"
      and "getNode C doc' (startKey C (selection state)) = Inr startNode"
      and "getParentNode C doc' startNode = Inr parent"
      and "getNextNode C doc' parent = Inr (Some sibling)"
      and "nodes C sibling = Some (child # others)"
      and "moveToStartOf C (selection state) (Some child) = Inr sel'"
  shows "split C state = Inr (state\<lparr>document := doc', selection := sel'\<rparr>)"
  using assms by (simp add: split_def Let_def nodes_first_def)

theorem split_selection_witness:
  "split (Slate ''insertTextAtRange'') (state_of foo_bar (caret 2 1))
     = Inr (state_of [(1, 2, ''F''), (5, 6, ''oo''), (3, 4, ''Bar'')] (caret 6 0))"
proof -
  let ?C = "Slate ''insertTextAtRange''"
  let ?st = "state_of foo_bar (caret 2 1)"
  let ?doc' = "[(1, 2, ''F''), (5, 6, ''oo''), (3, 4, ''Bar'')]"
  have d: "invoke ?C ''splitAtRange'' [ARange (selection ?st)] (document ?st) = Inr ?doc'"
    by (simp add: fx_defs)
  have g: "getNode ?C ?doc' (startKey ?C (selection ?st)) = Inr (Some (TextNode 2 ''F''))"
    by (simp add: fx_defs)
  have p: "getParentNode ?C ?doc' (Some (TextNode 2 ''F'')) = Inr (Some (BlockNode 1 2 ''F''))"
    by (simp add: fx_defs)
  have n: "getNextNode ?C ?doc' (Some (BlockNode 1 2 ''F'')) = Inr (Some (BlockNode 5 6 ''oo''))"
    by (simp add: fx_defs)
  have c: "nodes ?C (BlockNode 5 6 ''oo'') = Some (TextNode 6 ''oo'' # [])"
    by (simp add: fx_defs)
  have m: "moveToStartOf ?C (selection ?st) (Some (TextNode 6 ''oo'')) = Inr (caret 6 0)"
    by (simp add: fx_defs)
  from split_selection [OF d g p n c m] show ?thesis
    by (simp add: state_of_def)
qed

subsection \<open>The range methods of the prototype\<close>

text \<open>
  C8. For each of the five names of \<open>DOCUMENT_LIKE_METHODS\<close> and every argument list,
  the method of that name on a state applies the document's method of the same name
  to the document of the state with those arguments, and returns the state with the
  document replaced by the result: selection, history and \<open>isNative\<close> are those of the
  receiver.
\<close>

theorem range_method_passthrough:
  assumes "method \<in> set DOCUMENT_LIKE_METHODS"
      and "doc_method C method = Some f"
      and "f args (document state) = Inr doc'"
  shows "\<exists>state'. perform C (RangeMethod method args) state = Inr state'
           \<and> document state' = doc'
           \<and> selection state' = selection state
           \<and> history state' = history state
           \<and> isNative state' = isNative state"
  using assms by (simp add: State_prototype_def mixin_def invoke_def)

theorem range_method_passthrough_witness:
  "perform (Slate ''insertAtRange'')
     (RangeMethod ''insertAtRange'' [ARange (caret 2 1), AText ''x''])
     (used_state foo_bar (caret 4 0))
     = Inr (used_state [(1, 2, ''Fxoo''), (3, 4, ''Bar'')] (caret 4 0))
   \<and> perform (Slate ''insertAtRange'')
     (RangeMethod ''deleteForwardAtRange'' [ARange (caret 2 0), ANum 2])
     (used_state foo_bar (caret 4 0))
     = Inr (used_state [(1, 2, ''o''), (3, 4, ''Bar'')] (caret 4 0))"
proof -
  let ?C = "Slate ''insertAtRange''"
  let ?st = "used_state foo_bar (caret 4 0)"
  have l1: "''insertAtRange'' \<in> set DOCUMENT_LIKE_METHODS"
    by (simp add: DOCUMENT_LIKE_METHODS_def)
  have m1: "doc_method ?C ''insertAtRange'' = Some fx_insertAtRange"
    by (simp add: fx_defs)
  have r1: "fx_insertAtRange [ARange (caret 2 1), AText ''x''] (document ?st)
              = Inr [(1, 2, ''Fxoo''), (3, 4, ''Bar'')]"
    by (simp add: fx_defs)
  have l2: "''deleteForwardAtRange'' \<in> set DOCUMENT_LIKE_METHODS"
    by (simp add: DOCUMENT_LIKE_METHODS_def)
  have m2: "doc_method ?C ''deleteForwardAtRange'' = Some fx_deleteForwardAtRange"
    by (simp add: fx_defs)
  have r2: "fx_deleteForwardAtRange [ARange (caret 2 0), ANum 2] (document ?st)
              = Inr [(1, 2, ''o''), (3, 4, ''Bar'')]"
    by (simp add: fx_defs)
  from range_method_passthrough [OF l1 m1 r1] range_method_passthrough [OF l2 m2 r2]
  show ?thesis
    by (auto simp: used_state_def)
qed

subsection \<open>The factory\<close>

text \<open>
  C9. A state created by the factory without overrides (no argument, or an object
  without keys) has the document and the selection that their constructors give
  without arguments, a history of two empty stacks, and \<open>isNative\<close> true.
\<close>

theorem create_defaults:
  "create C None
     = \<lparr>document = new_Document C, selection = new_Selection C,
        history = \<lparr>undos = [], redos = []\<rparr>, isNative = True\<rparr>
   \<and> create C (Some no_properties) = create C None
   \<and> undos (history (create C None)) = []
   \<and> redos (history (create C None)) = []"
  by (simp add: create_def new_State_def no_properties_def DEFAULT_PROPERTIES_def new_History_def)

subsection \<open>What no editing method changes\<close>

lemma delete_frame:
  "delete C state = Inr state' \<Longrightarrow>
     history state' = history state \<and> isNative state' = isNative state"
  by (auto simp: delete_def bindE_eq_Inr split: if_splits)

lemma deleteBackward_frame:
  "deleteBackward C n state = Inr state' \<Longrightarrow>
     history state' = history state \<and> isNative state' = isNative state"
  unfolding deleteBackward_def Let_def bindE_eq_Inr by auto

lemma deleteForward_frame:
  "deleteForward C n state = Inr state' \<Longrightarrow>
     history state' = history state \<and> isNative state' = isNative state"
  unfolding deleteForward_def Let_def bindE_eq_Inr by auto

lemma insertText_frame:
  "insertText C text state = Inr state' \<Longrightarrow>
     history state' = history state \<and> isNative state' = isNative state"
  unfolding insertText_def Let_def bindE_eq_Inr by auto

lemma split_frame:
  "split C state = Inr state' \<Longrightarrow>
     history state' = history state \<and> isNative state' = isNative state"
  unfolding split_def Let_def bindE_eq_Inr by auto

lemma mixin_frame:
  "mixin C method args state = Inr state' \<Longrightarrow>
     history state' = history state \<and> isNative state' = isNative state"
  unfolding mixin_def bindE_eq_Inr by auto

text \<open>
  C10. Whatever editing method is called on a state (\<open>delete\<close>, \<open>deleteBackward\<close>,
  \<open>deleteForward\<close>, \<open>insertText\<close>, \<open>split\<close>, or a range method of the prototype), a
  state it returns has the history and the \<open>isNative\<close> flag of the receiver.
\<close>

theorem editing_frame:
  "perform C e state = Inr state' \<Longrightarrow>
     history state' = history state \<and> isNative state' = isNative state"
proof (cases e)
  case (RangeMethod name arguments)
  assume "perform C e state = Inr state'"
  with RangeMethod have "mixin C name arguments state = Inr state'"
    by (simp add: State_prototype_def split: if_splits)
  then show ?thesis by (rule mixin_frame)
qed (simp_all add: delete_frame deleteBackward_frame deleteForward_frame insertText_frame
       split_frame)

theorem editing_frame_witness:
  "perform (Slate ''insertTextAtRange'') (DeleteBackward (Some 1)) (used_state foo_bar (caret 4 0))
     = Inr (used_state [(1, 2, ''FooBar'')] (caret 2 3))
   \<and> history (used_state [(1, 2, ''FooBar'')] (caret 2 3))
       = history (used_state foo_bar (caret 4 0))
   \<and> isNative (used_state [(1, 2, ''FooBar'')] (caret 2 3))
       = isNative (used_state foo_bar (caret 4 0))
   \<and> history (used_state foo_bar (caret 4 0)) = \<lparr>undos = [7, 8], redos = [9]\<rparr>
   \<and> \<not> isNative (used_state foo_bar (caret 4 0))"
proof -
  have p: "perform (Slate ''insertTextAtRange'') (DeleteBackward (Some 1))
             (used_state foo_bar (caret 4 0))
           = Inr (used_state [(1, 2, ''FooBar'')] (caret 2 3))"
    by (simp add: deleteBackward_def fx_defs)
  from p editing_frame [OF p] show ?thesis
    by (simp add: used_state_def)
qed

end
